theory Spec2Isabelle
  imports
    Main
    "HOL-Library.Word"
    "HOL-Library.Multiset"
    "HOL-Library.Char_ord"
    "HOL-Library.List_Lexorder"
begin

section \<open>Data model (interface AudioRecording, at the end of src/app/lib/audioDevices.ts)\<close>

text \<open>
  A \<^verbatim>\<open>Blob\<close> is an immutable byte sequence with a content type; \<^verbatim>\<open>blob.size\<close> is
  its number of bytes, and \<^verbatim>\<open>new Blob(parts, {type})\<close> is the concatenation of the
  parts in array order.
\<close>

record Blob =
  bytes :: "8 word list"
  blobType :: string

definition size_blob :: "Blob \<Rightarrow> nat" where
  "size_blob b = length (bytes b)"

definition new_Blob :: "Blob list \<Rightarrow> string \<Rightarrow> Blob" where
  "new_Blob parts ty = \<lparr>bytes = concat (map bytes parts), blobType = ty\<rparr>"

text \<open>
  \<^verbatim>\<open>interface AudioRecording\<close>. The field \<^verbatim>\<open>id\<close> is called \<open>id_r\<close> here;
  a \<^verbatim>\<open>Date\<close> is its time value, the milliseconds since the epoch.
\<close>

record AudioRecording =
  id_r :: string
  name :: string
  blob :: Blob
  duration :: nat
  createdAt :: int
  mimeType :: string

text \<open>What a JavaScript \<^verbatim>\<open>throw\<close> or a rejected promise carries.\<close>

datatype js_error = Error string | DOMException string

section \<open>Storage gateway (class AudioStorage, in src/app/lib/audioDevices.ts)\<close>

text \<open>
  The object store \<^verbatim>\<open>recordings\<close> has the in-line key path \<^verbatim>\<open>id\<close>: it holds at
  most one record per key and keeps its records in key order (strings compare
  lexicographically). \<^verbatim>\<open>store.put\<close> replaces the record of the same key,
  \<^verbatim>\<open>store.delete\<close> removes it, \<^verbatim>\<open>store.get\<close> finds it. The index
  \<^verbatim>\<open>createdAt\<close> lists the records by ascending creation time, records of equal time
  in key order.
\<close>

definition store_put :: "AudioRecording \<Rightarrow> AudioRecording list \<Rightarrow> AudioRecording list" where
  "store_put r st = insort_key id_r r (filter (\<lambda>x. id_r x \<noteq> id_r r) st)"

definition store_delete :: "string \<Rightarrow> AudioRecording list \<Rightarrow> AudioRecording list" where
  "store_delete k st = filter (\<lambda>x. id_r x \<noteq> k) st"

definition store_get :: "string \<Rightarrow> AudioRecording list \<Rightarrow> AudioRecording option" where
  "store_get k st = find (\<lambda>x. id_r x = k) st"

definition index_getAll :: "AudioRecording list \<Rightarrow> AudioRecording list" where
  "index_getAll st = sort_key createdAt st"

text \<open>
  \<^verbatim>\<open>Array.prototype.sort(compareFn)\<close> is a stable sort: \<open>a\<close> stays before \<open>b\<close>
  unless \<open>compareFn a b > 0\<close>.
\<close>

fun insert_sorted :: "('a \<Rightarrow> 'a \<Rightarrow> int) \<Rightarrow> 'a \<Rightarrow> 'a list \<Rightarrow> 'a list" where
  "insert_sorted cmp x [] = [x]"
| "insert_sorted cmp x (y # ys) =
     (if cmp x y \<le> 0 then x # y # ys else y # insert_sorted cmp x ys)"

definition array_sort :: "('a \<Rightarrow> 'a \<Rightarrow> int) \<Rightarrow> 'a list \<Rightarrow> 'a list" where
  "array_sort cmp xs = foldr (insert_sorted cmp) xs []"

text \<open>The comparator of \<^verbatim>\<open>getRecordings\<close>: \<^verbatim>\<open>b.createdAt - a.createdAt\<close>.\<close>

definition newest_first :: "AudioRecording \<Rightarrow> AudioRecording \<Rightarrow> int" where
  "newest_first a b = createdAt b - createdAt a"

text \<open>
  \<^verbatim>\<open>class AudioStorage\<close>: the private field \<open>db\<close> (null until \<^verbatim>\<open>init\<close> succeeds)
  and the object store that the opened database holds. Every operation is given the
  outcome of its IndexedDB request: \<open>None\<close> when \<^verbatim>\<open>onsuccess\<close> fires, \<open>Some e\<close>
  when \<^verbatim>\<open>onerror\<close> fires with \<^verbatim>\<open>request.error = e\<close>. A rejected promise is
  \<open>Inl\<close>.
\<close>

datatype IDBDatabase = IDBDatabase

record AudioStorage =
  db :: "IDBDatabase option"
  objectStore :: "AudioRecording list"

definition init :: "js_error option \<Rightarrow> AudioStorage \<Rightarrow> (js_error + unit) \<times> AudioStorage" where
  "init req w =
     (case req of
        Some e \<Rightarrow> (Inl e, w)
      | None \<Rightarrow> (Inr (), w\<lparr>db := Some IDBDatabase\<rparr>))"

definition saveRecording ::
  "AudioRecording \<Rightarrow> js_error option \<Rightarrow> AudioStorage \<Rightarrow> (js_error + unit) \<times> AudioStorage" where
  "saveRecording recording req w =
     (if db w = None then (Inl (Error ''Database not initialized''), w)
      else case req of
        Some e \<Rightarrow> (Inl e, w)
      | None \<Rightarrow> (Inr (), w\<lparr>objectStore := store_put recording (objectStore w)\<rparr>))"

definition getRecordings ::
  "js_error option \<Rightarrow> AudioStorage \<Rightarrow> (js_error + AudioRecording list) \<times> AudioStorage" where
  "getRecordings req w =
     (if db w = None then (Inl (Error ''Database not initialized''), w)
      else case req of
        Some e \<Rightarrow> (Inl e, w)
      | None \<Rightarrow> (Inr (array_sort newest_first (index_getAll (objectStore w))), w))"

definition deleteRecording ::
  "string \<Rightarrow> js_error option \<Rightarrow> AudioStorage \<Rightarrow> (js_error + unit) \<times> AudioStorage" where
  "deleteRecording k req w =
     (if db w = None then (Inl (Error ''Database not initialized''), w)
      else case req of
        Some e \<Rightarrow> (Inl e, w)
      | None \<Rightarrow> (Inr (), w\<lparr>objectStore := store_delete k (objectStore w)\<rparr>))"

definition getRecording ::
  "string \<Rightarrow> js_error option \<Rightarrow> AudioStorage \<Rightarrow> (js_error + AudioRecording option) \<times> AudioStorage" where
  "getRecording k req w =
     (if db w = None then (Inl (Error ''Database not initialized''), w)
      else case req of
        Some e \<Rightarrow> (Inl e, w)
      | None \<Rightarrow> (Inr (store_get k (objectStore w)), w))"

text \<open>A run of \<^verbatim>\<open>saveRecording\<close> calls whose requests all succeed.\<close>

definition put_all :: "AudioRecording list \<Rightarrow> AudioStorage \<Rightarrow> AudioStorage" where
  "put_all rs w = foldl (\<lambda>w r. snd (saveRecording r None w)) w rs"

section \<open>Device access gateway (class AudioDeviceManager, in src/app/lib/audioDevices.ts)\<close>

text \<open>
  A \<^verbatim>\<open>MediaStream\<close> is an object holding tracks; \<^verbatim>\<open>track.stop()\<close> ends a
  track and thereby releases the device behind it. The streams opened so far live in
  a table indexed by object identity. \<^verbatim>\<open>getUserMedia\<close> is given the platform's
  answer: the error it rejects with, or the tracks of the stream it resolves to.
  For a constraint that asks for audio only, the platform resolves to a stream with
  one audio track; the definitions below do not depend on it, and a property that
  does has it as a hypothesis.
\<close>

datatype TrackKind = audio | video

datatype ReadyState = live | ended

record MediaStreamTrack =
  kind :: TrackKind
  readyState :: ReadyState

record MediaDevices =
  streams :: "nat \<Rightarrow> MediaStreamTrack list option"
  nextStream :: nat

type_synonym media_answer = "js_error + MediaStreamTrack list"

definition getUserMedia :: "media_answer \<Rightarrow> MediaDevices \<Rightarrow> (js_error + nat) \<times> MediaDevices" where
  "getUserMedia answer md =
     (case answer of
        Inl e \<Rightarrow> (Inl e, md)
      | Inr ts \<Rightarrow>
          (Inr (nextStream md),
           md\<lparr>streams := (streams md)(nextStream md \<mapsto> ts), nextStream := Suc (nextStream md)\<rparr>))"

definition getTracks :: "nat \<Rightarrow> MediaDevices \<Rightarrow> MediaStreamTrack list" where
  "getTracks stream md = (case streams md stream of None \<Rightarrow> [] | Some ts \<Rightarrow> ts)"

definition getAudioTracks :: "nat \<Rightarrow> MediaDevices \<Rightarrow> MediaStreamTrack list" where
  "getAudioTracks stream md = filter (\<lambda>t. kind t = audio) (getTracks stream md)"

text \<open>\<^verbatim>\<open>track.stop()\<close> and \<^verbatim>\<open>stream.getTracks().forEach(track => track.stop())\<close>\<close>

definition track_stop :: "MediaStreamTrack \<Rightarrow> MediaStreamTrack" where
  "track_stop t = t\<lparr>readyState := ended\<rparr>"

definition stopTracks :: "nat \<Rightarrow> MediaDevices \<Rightarrow> MediaDevices" where
  "stopTracks stream md =
     md\<lparr>streams := (streams md)(stream := map_option (map track_stop) (streams md stream))\<rparr>"

text \<open>A stream is released when it exists and each of its tracks has ended.\<close>

definition released :: "nat \<Rightarrow> MediaDevices \<Rightarrow> bool" where
  "released stream md =
     (case streams md stream of
        None \<Rightarrow> False
      | Some ts \<Rightarrow> list_all (\<lambda>t. readyState t = ended) ts)"

text \<open>
  \<^verbatim>\<open>AudioDeviceManager.testDevice\<close>. The platform maps the constraint (the exact
  device asked for, or \<open>None\<close> for \<^verbatim>\<open>{audio: true}\<close>) to its answer.
  \<open>testDevice_try\<close> is the body of the \<^verbatim>\<open>try\<close> block, \<open>testDevice\<close> adds the
  \<^verbatim>\<open>catch\<close>.
\<close>

definition testDevice_try ::
  "(string option \<Rightarrow> media_answer) \<Rightarrow> string \<Rightarrow> MediaDevices \<Rightarrow> (js_error + bool) \<times> MediaDevices" where
  "testDevice_try platform deviceId md =
     (case getUserMedia (platform (Some deviceId)) md of
        (Inl e, md') \<Rightarrow> (Inl e, md')
      | (Inr stream, md') \<Rightarrow>
          (let audioTracks = getAudioTracks stream md';
               isWorking = (case audioTracks of [] \<Rightarrow> False | t # _ \<Rightarrow> readyState t = live)
           in (Inr isWorking, stopTracks stream md')))"

definition testDevice ::
  "(string option \<Rightarrow> media_answer) \<Rightarrow> string \<Rightarrow> MediaDevices \<Rightarrow> (js_error + bool) \<times> MediaDevices" where
  "testDevice platform deviceId md =
     (case testDevice_try platform deviceId md of
        (Inl e, md') \<Rightarrow> (Inr False, md')
      | (Inr isWorking, md') \<Rightarrow> (Inr isWorking, md'))"

section \<open>Recording session (component AudioRecorder, in src/app/components/RecordingsList.tsx)\<close>

text \<open>
  \<^verbatim>\<open>Number.prototype.toString\<close> on an integer: its decimal digits, with a minus sign
  when negative (time values are far below the magnitude where the exponent form
  starts).
\<close>

definition digit_char :: "nat \<Rightarrow> char" where
  "digit_char d = ''0123456789'' ! d"

fun toString_nat :: "nat \<Rightarrow> string" where
  "toString_nat n =
     (if n < 10 then [digit_char n] else toString_nat (n div 10) @ [digit_char (n mod 10)])"

declare toString_nat.simps [simp del]

definition toString :: "int \<Rightarrow> string" where
  "toString i = (if i < 0 then CHR ''-'' # toString_nat (nat (- i)) else toString_nat (nat i))"

text \<open>
  \<^verbatim>\<open>interface RecordingState\<close>: the React state of the component. The recorder and
  the stream are object references.
\<close>

record RecordingState =
  isRecording :: bool
  isPaused :: bool
  recordingTime :: nat
  mediaRecorder :: "nat option"
  audioStream :: "nat option"

text \<open>
  A \<^verbatim>\<open>MediaRecorder\<close> object: the stream it was built on, its \<^verbatim>\<open>mimeType\<close>, its
  \<^verbatim>\<open>state\<close>, and what its \<^verbatim>\<open>onstop\<close> handler closed over. The handler is
  created inside \<^verbatim>\<open>startRecording\<close>, so the \<^verbatim>\<open>recordingState\<close> it reads is the
  constant of the render whose \<^verbatim>\<open>startRecording\<close> ran: \<^verbatim>\<open>setRecordingState\<close>
  makes later renders see a new value, it does not change that constant.
\<close>

datatype RecorderState = state_inactive | state_recording | state_paused

record MediaRecorder =
  stream :: nat
  mimeTypeOf :: string
  state :: RecorderState
  onstop_recordingState :: RecordingState

text \<open>
  The component with what it reaches: its state variables and refs, the platform
  (\<^verbatim>\<open>navigator.mediaDevices\<close>, the recorder objects, the active
  \<^verbatim>\<open>setInterval\<close> timers), the \<^verbatim>\<open>audioStorage\<close> singleton, and the
  \<^verbatim>\<open>recordings\<close> state of the page that \<^verbatim>\<open>onRecordingComplete\<close> feeds.
  \<open>pendingStarts\<close> holds the calls of \<^verbatim>\<open>startRecording\<close> that are suspended at
  \<^verbatim>\<open>await getUserMedia\<close>, each with the \<^verbatim>\<open>recordingState\<close> of the render
  whose handler was called: the constant its continuation will read.
\<close>

record AudioRecorder =
  recordingState :: RecordingState
  error :: string
  permissionGranted :: bool
  selectedDeviceId :: string
  timerRef :: "nat option"
  chunksRef :: "Blob list"
  mediaDevices :: MediaDevices
  recorders :: "nat \<Rightarrow> MediaRecorder option"
  nextRecorder :: nat
  intervals :: "nat set"
  nextInterval :: nat
  audioStorage :: AudioStorage
  recordings :: "AudioRecording list"
  pendingStarts :: "RecordingState list"

definition initialState :: "AudioStorage \<Rightarrow> AudioRecorder" where
  "initialState w =
     \<lparr>recordingState =
        \<lparr>isRecording = False, isPaused = False, recordingTime = 0,
         mediaRecorder = None, audioStream = None\<rparr>,
      error = '''', permissionGranted = False, selectedDeviceId = '''',
      timerRef = None, chunksRef = [],
      mediaDevices = \<lparr>streams = Map.empty, nextStream = 0\<rparr>,
      recorders = Map.empty, nextRecorder = 0,
      intervals = {}, nextInterval = 1,
      audioStorage = w, recordings = [], pendingStarts = []\<rparr>"

definition setRecordingState ::
  "(RecordingState \<Rightarrow> RecordingState) \<Rightarrow> AudioRecorder \<Rightarrow> AudioRecorder" where
  "setRecordingState f s = s\<lparr>recordingState := f (recordingState s)\<rparr>"

text \<open>Timer identifiers are positive, so a stored identifier is truthy.\<close>

definition setInterval :: "AudioRecorder \<Rightarrow> nat \<times> AudioRecorder" where
  "setInterval s =
     (nextInterval s,
      s\<lparr>intervals := insert (nextInterval s) (intervals s), nextInterval := Suc (nextInterval s)\<rparr>)"

definition clearInterval :: "nat \<Rightarrow> AudioRecorder \<Rightarrow> AudioRecorder" where
  "clearInterval t s = s\<lparr>intervals := intervals s - {t}\<rparr>"

text \<open>\<^verbatim>\<open>if (timerRef.current) clearInterval(timerRef.current)\<close>\<close>

definition clearTimerRef :: "AudioRecorder \<Rightarrow> AudioRecorder" where
  "clearTimerRef s = (case timerRef s of None \<Rightarrow> s | Some t \<Rightarrow> clearInterval t s)"

text \<open>
  The callback of both timers, run when the timer \<open>t\<close> fires; a cleared timer does
  not fire.
\<close>

definition tick :: "nat \<Rightarrow> AudioRecorder \<Rightarrow> AudioRecorder" where
  "tick t s =
     (if t \<in> intervals s
      then setRecordingState (\<lambda>prev. prev\<lparr>recordingTime := recordingTime prev + 1\<rparr>) s
      else s)"

definition requestMicrophonePermission :: "media_answer \<Rightarrow> AudioRecorder \<Rightarrow> AudioRecorder" where
  "requestMicrophonePermission answer s =
     (case getUserMedia answer (mediaDevices s) of
        (Inr str, md) \<Rightarrow>
          s\<lparr>permissionGranted := True, mediaDevices := stopTracks str md, error := ''''\<rparr>
      | (Inl e, md) \<Rightarrow>
          s\<lparr>permissionGranted := False,
            error := ''Microphone permission is required to record audio.''\<rparr>)"

definition ondataavailable :: "Blob \<Rightarrow> AudioRecorder \<Rightarrow> AudioRecorder" where
  "ondataavailable data s =
     (if size_blob data > 0 then s\<lparr>chunksRef := chunksRef s @ [data]\<rparr> else s)"

text \<open>
  What the environment answers while a recorder stops: the data of the last
  \<^verbatim>\<open>dataavailable\<close> event, the three clock readings of the handler
  (\<^verbatim>\<open>Date.now()\<close>, \<^verbatim>\<open>new Date().toLocaleString()\<close>, \<^verbatim>\<open>new Date()\<close>) and the
  outcome of the \<^verbatim>\<open>put\<close> request.
\<close>

record StopEnv =
  finalData :: Blob
  dateNow :: int
  localeString :: string
  newDate :: int
  putRequest :: "js_error option"

definition assemble :: "MediaRecorder \<Rightarrow> StopEnv \<Rightarrow> AudioRecorder \<Rightarrow> AudioRecording" where
  "assemble mr env s =
     \<lparr>id_r = ''recording_'' @ toString (dateNow env),
      name = ''Recording '' @ localeString env,
      blob = new_Blob (chunksRef s) (mimeTypeOf mr),
      duration = recordingTime (onstop_recordingState mr),
      createdAt = newDate env,
      mimeType = mimeTypeOf mr\<rparr>"

definition onstop :: "MediaRecorder \<Rightarrow> StopEnv \<Rightarrow> AudioRecorder \<Rightarrow> AudioRecorder" where
  "onstop mr env s =
     (let recording = assemble mr env s;
          s1 = (case saveRecording recording (putRequest env) (audioStorage s) of
                  (Inr u, w) \<Rightarrow> s\<lparr>audioStorage := w, recordings := recording # recordings s\<rparr>
                | (Inl e, w) \<Rightarrow> s\<lparr>audioStorage := w, error := ''Failed to save recording''\<rparr>);
          s2 = s1\<lparr>mediaDevices := stopTracks (stream mr) (mediaDevices s1)\<rparr>;
          s3 = setRecordingState
                 (\<lambda>prev. prev\<lparr>isRecording := False, isPaused := False, recordingTime := 0,
                              mediaRecorder := None, audioStream := None\<rparr>) s2
      in clearTimerRef s3)"

text \<open>
  \<^verbatim>\<open>mediaRecorder.stop()\<close>: an inactive recorder throws, otherwise the recorder
  becomes inactive, hands over its last data and then fires \<^verbatim>\<open>stop\<close>. A throw in
  a click handler ends the handler; the state is as it was.
\<close>

definition recorder_stop :: "nat \<Rightarrow> StopEnv \<Rightarrow> AudioRecorder \<Rightarrow> AudioRecorder" where
  "recorder_stop r env s =
     (case recorders s r of
        None \<Rightarrow> s
      | Some mr \<Rightarrow>
          if state mr = state_inactive then s
          else onstop (mr\<lparr>state := state_inactive\<rparr>) env
                 (ondataavailable (finalData env)
                    (s\<lparr>recorders := (recorders s)(r \<mapsto> mr\<lparr>state := state_inactive\<rparr>)\<rparr>)))"

definition stopRecording :: "StopEnv \<Rightarrow> AudioRecorder \<Rightarrow> AudioRecorder" where
  "stopRecording env s =
     (case mediaRecorder (recordingState s) of
        None \<Rightarrow> s
      | Some r \<Rightarrow> if isRecording (recordingState s) then recorder_stop r env s else s)"

text \<open>\<^verbatim>\<open>mediaRecorder.pause()\<close> and \<^verbatim>\<open>mediaRecorder.resume()\<close>; \<open>None\<close> is the throw.\<close>

definition recorder_pause :: "nat \<Rightarrow> AudioRecorder \<Rightarrow> AudioRecorder option" where
  "recorder_pause r s =
     (case recorders s r of
        None \<Rightarrow> None
      | Some mr \<Rightarrow>
          if state mr = state_inactive then None
          else Some (s\<lparr>recorders := (recorders s)(r \<mapsto> mr\<lparr>state := state_paused\<rparr>)\<rparr>))"

definition recorder_resume :: "nat \<Rightarrow> AudioRecorder \<Rightarrow> AudioRecorder option" where
  "recorder_resume r s =
     (case recorders s r of
        None \<Rightarrow> None
      | Some mr \<Rightarrow>
          if state mr = state_inactive then None
          else Some (s\<lparr>recorders := (recorders s)(r \<mapsto> mr\<lparr>state := state_recording\<rparr>)\<rparr>))"

definition pauseRecording :: "AudioRecorder \<Rightarrow> AudioRecorder" where
  "pauseRecording s =
     (case mediaRecorder (recordingState s) of
        None \<Rightarrow> s
      | Some r \<Rightarrow>
          if isRecording (recordingState s) then
            (case recorder_pause r s of
               None \<Rightarrow> s
             | Some s1 \<Rightarrow>
                 clearTimerRef (setRecordingState (\<lambda>prev. prev\<lparr>isPaused := True\<rparr>) s1))
          else s)"

definition resumeRecording :: "AudioRecorder \<Rightarrow> AudioRecorder" where
  "resumeRecording s =
     (case mediaRecorder (recordingState s) of
        None \<Rightarrow> s
      | Some r \<Rightarrow>
          if isPaused (recordingState s) then
            (case recorder_resume r s of
               None \<Rightarrow> s
             | Some s1 \<Rightarrow>
                 (let s2 = setRecordingState (\<lambda>prev. prev\<lparr>isPaused := False\<rparr>) s1;
                      (t, s3) = setInterval s2
                  in s3\<lparr>timerRef := Some t\<rparr>))
          else s)"

text \<open>
  What the environment answers during \<^verbatim>\<open>startRecording\<close>: the answer to the
  permission request (asked only when permission is not yet granted), the answer to
  \<^verbatim>\<open>getUserMedia\<close>, the \<^verbatim>\<open>mimeType\<close> the new recorder picks, and the error
  \<^verbatim>\<open>mediaRecorder.start()\<close> throws, if any.
\<close>

record StartEnv =
  permissionAnswer :: media_answer
  streamAnswer :: media_answer
  recorderMimeType :: string
  startError :: "js_error option"

text \<open>
  \<^verbatim>\<open>startRecording\<close> up to its \<^verbatim>\<open>await\<close>. \<^verbatim>\<open>permissionGranted\<close> is a
  constant of the render, so the second test \<^verbatim>\<open>if (!permissionGranted) return\<close>
  after the permission request reads the same \<open>False\<close> as the first and returns.
  With permission granted the call asks for the stream and is suspended; no state is
  set before that, so the component renders as before the call.
\<close>

definition startRecording_begin :: "media_answer \<Rightarrow> AudioRecorder \<Rightarrow> AudioRecorder" where
  "startRecording_begin answer s =
     (if \<not> permissionGranted s then requestMicrophonePermission answer s
      else s\<lparr>pendingStarts := pendingStarts s @ [recordingState s]\<rparr>)"

text \<open>
  \<^verbatim>\<open>startRecording\<close> from the moment \<^verbatim>\<open>getUserMedia\<close> settles, in the state
  the component is in by then; \<open>rendered\<close> is the \<^verbatim>\<open>recordingState\<close> constant of
  the suspended call, which the \<^verbatim>\<open>onstop\<close> handler created here closes over.
\<close>

definition startRecording_resume ::
  "StartEnv \<Rightarrow> RecordingState \<Rightarrow> AudioRecorder \<Rightarrow> AudioRecorder" where
  "startRecording_resume env rendered s =
     (case getUserMedia (streamAnswer env) (mediaDevices s) of
        (Inl e, md) \<Rightarrow>
          s\<lparr>error := ''Failed to start recording. Please check microphone permissions.''\<rparr>
      | (Inr str, md) \<Rightarrow>
          (let r = nextRecorder s;
               mr = \<lparr>stream = str, mimeTypeOf = recorderMimeType env, state = state_inactive,
                     onstop_recordingState = rendered\<rparr>;
               s1 = s\<lparr>mediaDevices := md, recorders := (recorders s)(r \<mapsto> mr),
                      nextRecorder := Suc r, chunksRef := []\<rparr>
           in case startError env of
                Some e \<Rightarrow>
                  s1\<lparr>error := ''Failed to start recording. Please check microphone permissions.''\<rparr>
              | None \<Rightarrow>
                  (let s2 = s1\<lparr>recorders := (recorders s1)(r \<mapsto> mr\<lparr>state := state_recording\<rparr>)\<rparr>;
                       (t, s3) = setInterval s2;
                       s4 = s3\<lparr>timerRef := Some t\<rparr>;
                       s5 = setRecordingState
                              (\<lambda>prev. prev\<lparr>isRecording := True, isPaused := False,
                                           mediaRecorder := Some r, audioStream := Some str\<rparr>) s4
                   in s5\<lparr>error := ''''\<rparr>)))"

text \<open>A whole call of \<^verbatim>\<open>startRecording\<close> during whose wait nothing else happens.\<close>

definition startRecording :: "StartEnv \<Rightarrow> AudioRecorder \<Rightarrow> AudioRecorder" where
  "startRecording env s =
     (if \<not> permissionGranted s then requestMicrophonePermission (permissionAnswer env) s
      else startRecording_resume env (recordingState s) s)"

subsection \<open>The page (component Home, src/unnamed/part_001) and the rendered controls\<close>

text \<open>\<^verbatim>\<open>initializeStorage\<close> and \<^verbatim>\<open>loadRecordings\<close> of the page.\<close>

definition loadRecordings :: "js_error option \<Rightarrow> AudioRecorder \<Rightarrow> AudioRecorder" where
  "loadRecordings req s =
     (case getRecordings req (audioStorage s) of
        (Inr savedRecordings, w) \<Rightarrow> s\<lparr>recordings := savedRecordings\<rparr>
      | (Inl e, w) \<Rightarrow> s)"

definition initializeStorage ::
  "js_error option \<Rightarrow> js_error option \<Rightarrow> AudioRecorder \<Rightarrow> AudioRecorder" where
  "initializeStorage openReq req s =
     (case init openReq (audioStorage s) of
        (Inr u, w) \<Rightarrow> loadRecordings req (s\<lparr>audioStorage := w\<rparr>)
      | (Inl e, w) \<Rightarrow> s)"

text \<open>
  The buttons of the component and when the JSX renders them enabled: Start when
  neither recording nor paused (disabled without permission), Pause and Stop when
  recording and not paused, Resume and Stop when paused, Grant Permission when an
  error is shown and permission is missing.
\<close>

datatype control = StartButton | PauseButton | ResumeButton | StopButton | GrantButton

fun clickable :: "control \<Rightarrow> AudioRecorder \<Rightarrow> bool" where
  "clickable StartButton s =
     (\<not> isRecording (recordingState s) \<and> \<not> isPaused (recordingState s) \<and> permissionGranted s)"
| "clickable PauseButton s =
     (isRecording (recordingState s) \<and> \<not> isPaused (recordingState s))"
| "clickable ResumeButton s = isPaused (recordingState s)"
| "clickable StopButton s =
     ((isRecording (recordingState s) \<and> \<not> isPaused (recordingState s)) \<or>
      isPaused (recordingState s))"
| "clickable GrantButton s = (error s \<noteq> '''' \<and> \<not> permissionGranted s)"

text \<open>The platform delivers data only from a recorder that is not inactive.\<close>

definition recorder_active :: "AudioRecorder \<Rightarrow> bool" where
  "recorder_active s =
     (case mediaRecorder (recordingState s) of
        None \<Rightarrow> False
      | Some r \<Rightarrow>
          (case recorders s r of None \<Rightarrow> False | Some mr \<Rightarrow> state mr \<noteq> state_inactive))"

text \<open>
  The events the component reacts to. A click reaches its handler only when the
  button is rendered and enabled. A click on Start runs \<^verbatim>\<open>startRecording\<close> up to
  its \<^verbatim>\<open>await\<close>; the call stays suspended, other events are taken, until the
  event that \<^verbatim>\<open>getUserMedia\<close> settles for it resumes it. The suspended calls
  may settle in any order; \<open>i\<close> says which one does. The other handlers run to
  their end within their event, the requests they wait for answered by the
  environment values they are given.
\<close>

datatype event =
    Mount media_answer
  | ClickGrant media_answer
  | ClickStart media_answer
  | GetUserMediaSettles nat StartEnv
  | ClickPause
  | ClickResume
  | ClickStop StopEnv
  | TimerFires nat
  | DataAvailable Blob
  | DeviceChange string
  | InitializeStorage "js_error option" "js_error option"

fun dispatch :: "event \<Rightarrow> AudioRecorder \<Rightarrow> AudioRecorder" where
  "dispatch (Mount answer) s = requestMicrophonePermission answer s"
| "dispatch (ClickGrant answer) s =
     (if clickable GrantButton s then requestMicrophonePermission answer s else s)"
| "dispatch (ClickStart answer) s =
     (if clickable StartButton s then startRecording_begin answer s else s)"
| "dispatch (GetUserMediaSettles i env) s =
     (if i < length (pendingStarts s)
      then startRecording_resume env (pendingStarts s ! i)
             (s\<lparr>pendingStarts := take i (pendingStarts s) @ drop (Suc i) (pendingStarts s)\<rparr>)
      else s)"
| "dispatch ClickPause s = (if clickable PauseButton s then pauseRecording s else s)"
| "dispatch ClickResume s = (if clickable ResumeButton s then resumeRecording s else s)"
| "dispatch (ClickStop env) s = (if clickable StopButton s then stopRecording env s else s)"
| "dispatch (TimerFires t) s = tick t s"
| "dispatch (DataAvailable data) s = (if recorder_active s then ondataavailable data s else s)"
| "dispatch (DeviceChange deviceId) s = s\<lparr>selectedDeviceId := deviceId\<rparr>"
| "dispatch (InitializeStorage openReq req) s = initializeStorage openReq req s"

definition run :: "event list \<Rightarrow> AudioRecorder \<Rightarrow> AudioRecorder" where
  "run es s = foldl (\<lambda>s e. dispatch e s) s es"

subsection \<open>The shape of a session\<close>

text \<open>
  What holds of the component after any run of events: paused implies recording;
  when not recording, the state holds no recorder and no stream; when recording, the
  state holds a recorder, created earlier, that is paused or recording as the state
  says, built on the stream the state holds, and that stream exists. Nothing is said of the timers:
  two calls of \<^verbatim>\<open>startRecording\<close> suspended together leave two of them.
\<close>

definition session_inv :: "AudioRecorder \<Rightarrow> bool" where
  "session_inv s =
     (let rs = recordingState s in
      (isPaused rs \<longrightarrow> isRecording rs) \<and>
      (\<not> isRecording rs \<longrightarrow> mediaRecorder rs = None \<and> audioStream rs = None) \<and>
      (isRecording rs \<longrightarrow>
         (case mediaRecorder rs of
            None \<Rightarrow> False
          | Some r \<Rightarrow>
              (case recorders s r of
                 None \<Rightarrow> False
               | Some mr \<Rightarrow>
                   r < nextRecorder s \<and>
                   state mr = (if isPaused rs then state_paused else state_recording) \<and>
                   audioStream rs = Some (stream mr) \<and>
                   streams (mediaDevices s) (stream mr) \<noteq> None))))"

subsection \<open>Example inputs\<close>

text \<open>
  A microphone stream with one live audio track, a platform that answers every
  constraint with a stream of given tracks, a platform state in which no stream was
  opened yet, a \<^verbatim>\<open>startRecording\<close> that gets the microphone stream, chunks of 10, 20 and 30 bytes, and a stop at a given clock reading whose
  \<^verbatim>\<open>put\<close> request gives the given outcome. \<open>example_recording\<close> is the session
  after mounting with permission granted, opening the storage, clicking Start and
  getting the stream.
\<close>

definition example_mic :: "MediaStreamTrack list" where
  "example_mic = [\<lparr>kind = audio, readyState = live\<rparr>]"

definition example_platform :: "MediaStreamTrack list \<Rightarrow> string option \<Rightarrow> media_answer" where
  "example_platform ts constraint = Inr ts"

definition example_devices :: MediaDevices where
  "example_devices = \<lparr>streams = Map.empty, nextStream = 0\<rparr>"

definition example_start :: StartEnv where
  "example_start =
     \<lparr>permissionAnswer = Inr example_mic, streamAnswer = Inr example_mic,
      recorderMimeType = ''audio/webm'', startError = None\<rparr>"

definition example_chunk :: "nat \<Rightarrow> Blob" where
  "example_chunk n = \<lparr>bytes = replicate n 0, blobType = ''audio/webm''\<rparr>"

definition example_stop :: "int \<Rightarrow> js_error option \<Rightarrow> StopEnv" where
  "example_stop now req =
     \<lparr>finalData = example_chunk 0, dateNow = now, localeString = ''11/3/2026, 9:40:00 AM'',
      newDate = now, putRequest = req\<rparr>"

definition example_recording :: AudioRecorder where
  "example_recording =
     run [InitializeStorage None None, Mount (Inr example_mic), ClickStart (Inr example_mic),
          GetUserMediaSettles 0 example_start]
       (initialState \<lparr>db = None, objectStore = []\<rparr>)"

text \<open>
  \<open>example_double_start\<close> is the session after two clicks on Start, the second
  made while the first call still waits for its stream, and both calls resumed.
\<close>

definition example_double_start :: AudioRecorder where
  "example_double_start =
     run [InitializeStorage None None, Mount (Inr example_mic),
          ClickStart (Inr example_mic), ClickStart (Inr example_mic),
          GetUserMediaSettles 0 example_start, GetUserMediaSettles 0 example_start]
       (initialState \<lparr>db = None, objectStore = []\<rparr>)"

section \<open>Storage gateway: properties\<close>

lemma mset_insert_sorted: "mset (insert_sorted cmp x xs) = add_mset x (mset xs)"
  by (induction xs) auto

lemma mset_array_sort: "mset (array_sort cmp xs) = mset xs"
  by (induction xs) (auto simp: array_sort_def mset_insert_sorted)

lemma set_insert_sorted: "set (insert_sorted cmp x xs) = insert x (set xs)"
  by (induction xs) auto

lemma sorted_insert_newest:
  "sorted_wrt (\<lambda>a b. createdAt b \<le> createdAt a) xs \<Longrightarrow>
   sorted_wrt (\<lambda>a b. createdAt b \<le> createdAt a) (insert_sorted newest_first x xs)"
  by (induction xs) (auto simp: set_insert_sorted newest_first_def)

lemma sorted_array_sort_newest:
  "sorted_wrt (\<lambda>a b. createdAt b \<le> createdAt a) (array_sort newest_first xs)"
proof (induction xs)
  case Nil
  show ?case by (simp add: array_sort_def)
next
  case (Cons x xs)
  then show ?case
    using sorted_insert_newest [of "array_sort newest_first xs" x]
    by (simp add: array_sort_def)
qed

lemma db_put_all: "db (put_all rs w) = db w"
proof (induction rs arbitrary: w)
  case Nil
  show ?case by (simp add: put_all_def)
next
  case (Cons r rs)
  have "db (snd (saveRecording r None w)) = db w"
    by (simp add: saveRecording_def)
  with Cons [of "snd (saveRecording r None w)"] show ?case
    by (simp add: put_all_def)
qed

text \<open>
  C10. Before \<^verbatim>\<open>init\<close> has succeeded the field \<open>db\<close> is null (a failed
  \<^verbatim>\<open>init\<close> leaves it null); then \<^verbatim>\<open>saveRecording\<close>, \<^verbatim>\<open>getRecordings\<close>,
  \<^verbatim>\<open>getRecording\<close> and \<^verbatim>\<open>deleteRecording\<close> each fail with the error
  \<^verbatim>\<open>Database not initialized\<close>, whatever the request would have answered, and leave
  the storage (handle and object store) as it was.
\<close>

theorem uninitialized_storage_rejects:
  assumes "db w = None"
  shows "saveRecording r req w = (Inl (Error ''Database not initialized''), w) \<and>
         getRecordings req w = (Inl (Error ''Database not initialized''), w) \<and>
         getRecording k req w = (Inl (Error ''Database not initialized''), w) \<and>
         deleteRecording k req w = (Inl (Error ''Database not initialized''), w) \<and>
         db (snd (init (Some e) w)) = None"
  using assms
  by (simp add: saveRecording_def getRecordings_def getRecording_def
      deleteRecording_def init_def)

theorem uninitialized_storage_rejects_witness:
  "db \<lparr>db = None, objectStore = []\<rparr> = None \<and>
   saveRecording
     \<lparr>id_r = ''recording_5'', name = ''Recording'', blob = \<lparr>bytes = [1, 2], blobType = ''audio/webm''\<rparr>,
      duration = 0, createdAt = 5, mimeType = ''audio/webm''\<rparr>
     None \<lparr>db = None, objectStore = []\<rparr>
     = (Inl (Error ''Database not initialized''), \<lparr>db = None, objectStore = []\<rparr>) \<and>
   getRecordings None \<lparr>db = None, objectStore = []\<rparr>
     = (Inl (Error ''Database not initialized''), \<lparr>db = None, objectStore = []\<rparr>) \<and>
   getRecording ''recording_5'' None \<lparr>db = None, objectStore = []\<rparr>
     = (Inl (Error ''Database not initialized''), \<lparr>db = None, objectStore = []\<rparr>) \<and>
   deleteRecording ''recording_5'' None \<lparr>db = None, objectStore = []\<rparr>
     = (Inl (Error ''Database not initialized''), \<lparr>db = None, objectStore = []\<rparr>)"
proof -
  have h: "db \<lparr>db = None, objectStore = []\<rparr> = None"
    by simp
  from uninitialized_storage_rejects [OF h] show ?thesis
    using h by blast
qed

lemma sorted_wrt_strict:
  "sorted_wrt (\<lambda>a b. createdAt b \<le> createdAt a) xs \<Longrightarrow> distinct (map createdAt xs) \<Longrightarrow>
   sorted_wrt (\<lambda>a b. createdAt b < createdAt a) xs"
  by (induction xs) (auto simp: order_less_le image_iff)

lemma distinct_times_permuted:
  "mset rs = mset st \<Longrightarrow> distinct (map createdAt rs) = distinct (map createdAt st)"
proof -
  assume "mset rs = mset st"
  then have "mset (map createdAt rs) = mset (map createdAt st)"
    by simp
  then show ?thesis
    by (rule mset_eq_imp_distinct_iff)
qed

text \<open>
  C5. Once \<^verbatim>\<open>init\<close> has succeeded, and after any run of successful
  \<^verbatim>\<open>saveRecording\<close> calls in any order, a successful \<^verbatim>\<open>getRecordings\<close> returns
  exactly the records the store holds, each once, ordered by creation time with the
  newest first: no record comes before one created later, and the creation times
  decrease strictly along the result when no two stored records share one. It
  leaves the storage as it was, and returns the empty list when the store is empty.
\<close>

theorem getRecordings_newest_first:
  assumes "db w = Some h"
  shows "\<exists>rs. getRecordings None (put_all recs w) = (Inr rs, put_all recs w) \<and>
           sorted_wrt (\<lambda>a b. createdAt b \<le> createdAt a) rs \<and>
           mset rs = mset (objectStore (put_all recs w)) \<and>
           (distinct (map createdAt (objectStore (put_all recs w))) \<longrightarrow>
              sorted_wrt (\<lambda>a b. createdAt b < createdAt a) rs) \<and>
           (objectStore (put_all recs w) = [] \<longrightarrow> rs = [])"
proof -
  let ?w = "put_all recs w"
  let ?rs = "array_sort newest_first (index_getAll (objectStore ?w))"
  have "db ?w = Some h"
    using assms by (simp add: db_put_all)
  then have "getRecordings None ?w = (Inr ?rs, ?w)"
    by (simp add: getRecordings_def)
  moreover have sorted: "sorted_wrt (\<lambda>a b. createdAt b \<le> createdAt a) ?rs"
    by (rule sorted_array_sort_newest)
  moreover have perm: "mset ?rs = mset (objectStore ?w)"
    by (simp add: mset_array_sort index_getAll_def)
  moreover have "distinct (map createdAt (objectStore ?w)) \<longrightarrow>
      sorted_wrt (\<lambda>a b. createdAt b < createdAt a) ?rs"
    using sorted_wrt_strict [OF sorted] distinct_times_permuted [OF perm] by simp
  moreover have "objectStore ?w = [] \<longrightarrow> ?rs = []"
    by (simp add: index_getAll_def array_sort_def)
  ultimately show ?thesis by blast
qed

theorem getRecordings_newest_first_witness:
  "db \<lparr>db = Some IDBDatabase, objectStore = []\<rparr> = Some IDBDatabase \<and>
   (\<exists>rs. getRecordings None
       (put_all
          [\<lparr>id_r = ''r1'', name = ''A'', blob = \<lparr>bytes = [1], blobType = ''audio/webm''\<rparr>,
            duration = 5, createdAt = 100, mimeType = ''audio/webm''\<rparr>,
           \<lparr>id_r = ''r2'', name = ''B'', blob = \<lparr>bytes = [2], blobType = ''audio/webm''\<rparr>,
            duration = 3, createdAt = 200, mimeType = ''audio/webm''\<rparr>]
          \<lparr>db = Some IDBDatabase, objectStore = []\<rparr>)
      = (Inr rs,
         put_all
          [\<lparr>id_r = ''r1'', name = ''A'', blob = \<lparr>bytes = [1], blobType = ''audio/webm''\<rparr>,
            duration = 5, createdAt = 100, mimeType = ''audio/webm''\<rparr>,
           \<lparr>id_r = ''r2'', name = ''B'', blob = \<lparr>bytes = [2], blobType = ''audio/webm''\<rparr>,
            duration = 3, createdAt = 200, mimeType = ''audio/webm''\<rparr>]
          \<lparr>db = Some IDBDatabase, objectStore = []\<rparr>) \<and>
      sorted_wrt (\<lambda>a b. createdAt b \<le> createdAt a) rs \<and>
      map id_r rs = [''r2'', ''r1''])"
proof -
  have h: "db \<lparr>db = Some IDBDatabase, objectStore = []\<rparr> = Some IDBDatabase"
    by simp
  from getRecordings_newest_first [OF h] show ?thesis
    using h
    by (auto simp: put_all_def saveRecording_def getRecordings_def store_put_def
        index_getAll_def array_sort_def newest_first_def)
qed

section \<open>Device access gateway: properties\<close>

lemma streams_stopTracks:
  "streams (stopTracks a md) b = (if b = a then map_option (map track_stop) (streams md a)
                                  else streams md b)"
  by (simp add: stopTracks_def)

lemma released_stopTracks:
  "streams md a = Some ts \<Longrightarrow> released a (stopTracks a md)"
  by (simp add: released_def stopTracks_def track_stop_def list_all_iff)

lemma single_audio_track:
  assumes "length (filter (\<lambda>t. kind t = audio) ts) \<le> 1"
  shows "(case filter (\<lambda>t. kind t = audio) ts of [] \<Rightarrow> False | t # _ \<Rightarrow> readyState t = live)
         \<longleftrightarrow> (\<exists>t\<in>set ts. kind t = audio \<and> readyState t = live)"
proof (cases "filter (\<lambda>t. kind t = audio) ts")
  case Nil
  then have "\<forall>t\<in>set ts. kind t \<noteq> audio"
    by (simp add: filter_empty_conv)
  with Nil show ?thesis by auto
next
  case (Cons a as)
  with assms have as: "as = []" by simp
  have "set (filter (\<lambda>t. kind t = audio) ts) = {a}"
    using Cons as by simp
  then have mem: "a \<in> set ts \<and> kind a = audio"
    and only: "\<forall>t\<in>set ts. kind t = audio \<longrightarrow> t = a"
    by auto
  show ?thesis
    using Cons mem only by auto
qed

text \<open>
  C9. Let the platform keep its contract: the stream it opens for the audio
  constraint of \<^verbatim>\<open>testDevice\<close> has at most one audio track. Then for every device
  identifier \<^verbatim>\<open>testDevice\<close> returns a boolean and never throws. When
  \<^verbatim>\<open>getUserMedia\<close> rejects, the result is \<open>False\<close> and the platform state is as
  before. When it resolves, the result is \<open>True\<close> exactly when some audio track of
  the opened stream is live, and in the state the function returns the opened stream
  holds the tracks it was opened with, each of them stopped, every other stream being
  as before.
\<close>

theorem testDevice_never_throws:
  assumes "\<forall>ts. platform (Some deviceId) = Inr ts \<longrightarrow>
             length (filter (\<lambda>t. kind t = audio) ts) \<le> 1"
  shows "\<exists>isWorking md'.
     testDevice platform deviceId md = (Inr isWorking, md') \<and>
     (\<forall>e. platform (Some deviceId) = Inl e \<longrightarrow> \<not> isWorking \<and> md' = md) \<and>
     (\<forall>ts. platform (Some deviceId) = Inr ts \<longrightarrow>
        (isWorking \<longleftrightarrow> (\<exists>t\<in>set ts. kind t = audio \<and> readyState t = live)) \<and>
        streams md' (nextStream md) = Some (map track_stop ts) \<and>
        (\<forall>k. k \<noteq> nextStream md \<longrightarrow> streams md' k = streams md k) \<and>
        released (nextStream md) md')"
proof (cases "platform (Some deviceId)")
  case (Inl e)
  then have "testDevice platform deviceId md = (Inr False, md)"
    by (simp add: testDevice_def testDevice_try_def getUserMedia_def)
  with Inl show ?thesis
    by (intro exI [of _ False] exI [of _ md]) simp
next
  case (Inr ts)
  let ?md1 = "md\<lparr>streams := (streams md)(nextStream md \<mapsto> ts), nextStream := Suc (nextStream md)\<rparr>"
  let ?b = "case filter (\<lambda>t. kind t = audio) ts of [] \<Rightarrow> False | t # _ \<Rightarrow> readyState t = live"
  have run: "testDevice platform deviceId md = (Inr ?b, stopTracks (nextStream md) ?md1)"
    using Inr
    by (simp add: testDevice_def testDevice_try_def getUserMedia_def getAudioTracks_def
        getTracks_def)
  have held: "streams (stopTracks (nextStream md) ?md1) (nextStream md) = Some (map track_stop ts)"
    by (simp add: streams_stopTracks)
  have others: "\<forall>k. k \<noteq> nextStream md \<longrightarrow>
      streams (stopTracks (nextStream md) ?md1) k = streams md k"
    by (simp add: streams_stopTracks)
  have rel: "released (nextStream md) (stopTracks (nextStream md) ?md1)"
    by (rule released_stopTracks [of _ _ ts]) simp
  have "length (filter (\<lambda>t. kind t = audio) ts) \<le> 1"
    using assms Inr by simp
  then have one: "?b \<longleftrightarrow> (\<exists>t\<in>set ts. kind t = audio \<and> readyState t = live)"
    by (rule single_audio_track)
  show ?thesis
    using run held others rel one Inr by auto
qed

theorem testDevice_never_throws_witness:
  "length (filter (\<lambda>t. kind t = audio) example_mic) \<le> 1 \<and>
   fst (testDevice (example_platform example_mic) ''mic-1'' example_devices) = Inr True \<and>
   getTracks 0 (snd (testDevice (example_platform example_mic) ''mic-1'' example_devices))
     = [\<lparr>kind = audio, readyState = ended\<rparr>] \<and>
   fst (testDevice (example_platform [\<lparr>kind = audio, readyState = ended\<rparr>]) ''mic-1''
          example_devices) = Inr False"
proof -
  have h: "\<forall>ts. example_platform example_mic (Some ''mic-1'') = Inr ts \<longrightarrow>
      length (filter (\<lambda>t. kind t = audio) ts) \<le> 1"
    by (simp add: example_platform_def example_mic_def)
  have h': "\<forall>ts. example_platform [\<lparr>kind = audio, readyState = ended\<rparr>] (Some ''mic-1'') = Inr ts \<longrightarrow>
      length (filter (\<lambda>t. kind t = audio) ts) \<le> 1"
    by (simp add: example_platform_def)
  from testDevice_never_throws [where platform = "example_platform example_mic"
      and deviceId = "''mic-1''" and md = example_devices, OF h]
  obtain isWorking md' where
    r: "testDevice (example_platform example_mic) ''mic-1'' example_devices = (Inr isWorking, md')"
    and w: "\<forall>ts. example_platform example_mic (Some ''mic-1'') = Inr ts \<longrightarrow>
        (isWorking \<longleftrightarrow> (\<exists>t\<in>set ts. kind t = audio \<and> readyState t = live)) \<and>
        streams md' (nextStream example_devices) = Some (map track_stop ts)"
    by blast
  from w have "isWorking" and "streams md' 0 = Some [\<lparr>kind = audio, readyState = ended\<rparr>]"
    by (simp_all add: example_platform_def example_mic_def example_devices_def track_stop_def)
  then have a: "fst (testDevice (example_platform example_mic) ''mic-1'' example_devices) = Inr True"
    and b: "getTracks 0 (snd (testDevice (example_platform example_mic) ''mic-1'' example_devices))
      = [\<lparr>kind = audio, readyState = ended\<rparr>]"
    using r by (simp_all add: getTracks_def)
  from testDevice_never_throws
    [where platform = "example_platform [\<lparr>kind = audio, readyState = ended\<rparr>]"
      and deviceId = "''mic-1''" and md = example_devices, OF h']
  obtain isWorking' md'' where
    r': "testDevice (example_platform [\<lparr>kind = audio, readyState = ended\<rparr>]) ''mic-1''
           example_devices = (Inr isWorking', md'')"
    and w': "\<forall>ts. example_platform [\<lparr>kind = audio, readyState = ended\<rparr>] (Some ''mic-1'') = Inr ts \<longrightarrow>
        (isWorking' \<longleftrightarrow> (\<exists>t\<in>set ts. kind t = audio \<and> readyState t = live))"
    by blast
  from w' have "\<not> isWorking'"
    by (simp add: example_platform_def)
  with r' have c: "fst (testDevice (example_platform [\<lparr>kind = audio, readyState = ended\<rparr>]) ''mic-1''
          example_devices) = Inr False"
    by simp
  have "length (filter (\<lambda>t. kind t = audio) example_mic) \<le> 1"
    by (simp add: example_mic_def)
  with a b c show ?thesis by blast
qed

section \<open>Identifiers: properties\<close>

lemma digit_char_inj: "d < 10 \<Longrightarrow> d' < 10 \<Longrightarrow> digit_char d = digit_char d' \<Longrightarrow> d = d'"
proof -
  assume a: "d < 10" "d' < 10" "digit_char d = digit_char d'"
  have "distinct ''0123456789''" by simp
  moreover have "length ''0123456789'' = 10" by simp
  ultimately show ?thesis
    using a unfolding digit_char_def by (metis nth_eq_iff_index_eq)
qed

lemma digit_char_not_minus: "d < 10 \<Longrightarrow> digit_char d \<noteq> CHR ''-''"
proof -
  assume "d < 10"
  then have "digit_char d \<in> set ''0123456789''"
    unfolding digit_char_def by (intro nth_mem) simp
  then show ?thesis by auto
qed

lemma toString_nat_not_Nil: "toString_nat n \<noteq> []"
  by (subst toString_nat.simps) simp

lemma toString_nat_no_minus: "CHR ''-'' \<notin> set (toString_nat n)"
proof (induction n rule: toString_nat.induct)
  case (1 n)
  show ?case
  proof (cases "n < 10")
    case True
    then show ?thesis
      using digit_char_not_minus [of n] by (subst toString_nat.simps) auto
  next
    case False
    then show ?thesis
      using 1 digit_char_not_minus [of "n mod 10"]
      by (subst toString_nat.simps) auto
  qed
qed

lemma toString_nat_inj: "toString_nat m = toString_nat n \<Longrightarrow> m = n"
proof (induction m arbitrary: n rule: toString_nat.induct)
  case (1 m)
  show ?case
  proof (cases "m < 10")
    case m: True
    show ?thesis
    proof (cases "n < 10")
      case True
      with m 1(2) show ?thesis
        by (simp add: toString_nat.simps [of m] toString_nat.simps [of n] digit_char_inj)
    next
      case False
      with m 1(2) show ?thesis
        using toString_nat_not_Nil [of "n div 10"]
        by (simp add: toString_nat.simps [of m] toString_nat.simps [of n] Cons_eq_append_conv)
    qed
  next
    case m: False
    show ?thesis
    proof (cases "n < 10")
      case True
      with m 1(2) show ?thesis
        using toString_nat_not_Nil [of "m div 10"]
        by (simp add: toString_nat.simps [of m] toString_nat.simps [of n] append_eq_Cons_conv)
    next
      case False
      with m 1(2) have eq: "toString_nat (m div 10) = toString_nat (n div 10)"
        and d: "digit_char (m mod 10) = digit_char (n mod 10)"
        by (simp_all add: toString_nat.simps [of m] toString_nat.simps [of n])
      from 1(1) [OF m eq] have "m div 10 = n div 10" .
      moreover from d have "m mod 10 = n mod 10"
        by (intro digit_char_inj) simp_all
      ultimately show ?thesis
        by (metis div_mult_mod_eq)
    qed
  qed
qed

lemma toString_inj: "toString i = toString j \<longleftrightarrow> i = j"
proof
  assume eq: "toString i = toString j"
  have neg: "\<And>n m. CHR ''-'' # toString_nat n \<noteq> toString_nat m"
    using toString_nat_no_minus by (metis list.set_intros(1))
  show "i = j"
  proof (cases "i < 0"; cases "j < 0")
    assume "i < 0" "j < 0"
    with eq have "nat (- i) = nat (- j)"
      by (simp add: toString_def toString_nat_inj)
    with \<open>i < 0\<close> \<open>j < 0\<close> show ?thesis by simp
  next
    assume "i < 0" "\<not> j < 0"
    with eq neg show ?thesis by (simp add: toString_def)
  next
    assume "\<not> i < 0" "j < 0"
    with eq neg [of "nat (- j)" "nat i"] show ?thesis by (simp add: toString_def)
  next
    assume "\<not> i < 0" "\<not> j < 0"
    with eq have "nat i = nat j"
      by (simp add: toString_def toString_nat_inj)
    with \<open>\<not> i < 0\<close> \<open>\<not> j < 0\<close> show ?thesis by simp
  qed
qed simp

lemma distinct_store_put: "distinct (map id_r st) \<Longrightarrow> distinct (map id_r (store_put r st))"
  by (auto simp: store_put_def distinct_insort_key distinct_map_filter)

lemma sorted_store_put: "sorted (map id_r st) \<Longrightarrow> sorted (map id_r (store_put r st))"
  by (simp add: store_put_def sorted_insort_key sorted_filter)

section \<open>Recording session: the shape is kept by every event\<close>


lemma streams_stopTracks_None: "streams (stopTracks a md) b = None \<longleftrightarrow> streams md b = None"
  by (simp add: stopTracks_def)

lemma inv_requestMicrophonePermission:
  "session_inv s \<Longrightarrow> session_inv (requestMicrophonePermission answer s)"
  by (cases answer)
     (auto simp: session_inv_def requestMicrophonePermission_def getUserMedia_def Let_def
        streams_stopTracks_None split: option.splits)





lemma inv_startRecording_resume:
  "session_inv s \<Longrightarrow> session_inv (startRecording_resume env rendered s)"
  by (cases "streamAnswer env"; cases "startError env")
     (auto simp: session_inv_def startRecording_resume_def getUserMedia_def Let_def
        setInterval_def setRecordingState_def split: option.splits)

lemma inv_startRecording:
  "session_inv s \<Longrightarrow> session_inv (startRecording env s)"
  by (simp add: startRecording_def inv_requestMicrophonePermission inv_startRecording_resume)



lemma onstop_cases:
  obtains (saved) w where
      "saveRecording (assemble mr env s) (putRequest env) (audioStorage s) = (Inr (), w)"
      "onstop mr env s =
         clearTimerRef (setRecordingState
           (\<lambda>prev. prev\<lparr>isRecording := False, isPaused := False, recordingTime := 0,
                        mediaRecorder := None, audioStream := None\<rparr>)
           (s\<lparr>audioStorage := w, recordings := assemble mr env s # recordings s,
              mediaDevices := stopTracks (stream mr) (mediaDevices s)\<rparr>))"
  | (failed) e w where
      "saveRecording (assemble mr env s) (putRequest env) (audioStorage s) = (Inl e, w)"
      "onstop mr env s =
         clearTimerRef (setRecordingState
           (\<lambda>prev. prev\<lparr>isRecording := False, isPaused := False, recordingTime := 0,
                        mediaRecorder := None, audioStream := None\<rparr>)
           (s\<lparr>audioStorage := w, error := ''Failed to save recording'',
              mediaDevices := stopTracks (stream mr) (mediaDevices s)\<rparr>))"
proof (cases "saveRecording (assemble mr env s) (putRequest env) (audioStorage s)")
  case (Pair res w)
  show ?thesis
  proof (cases res)
    case (Inl e)
    with Pair show ?thesis
      by (intro failed [of e w]) (simp_all add: onstop_def Let_def)
  next
    case (Inr u)
    with Pair show ?thesis
      by (intro saved [of w]) (simp_all add: onstop_def Let_def)
  qed
qed


lemma intervals_onstop:
  "intervals (onstop mr env s) =
     (case timerRef s of None \<Rightarrow> intervals s | Some t \<Rightarrow> intervals s - {t})"
  by (cases rule: onstop_cases [of mr env s])
     (simp_all add: clearTimerRef_def clearInterval_def setRecordingState_def split: option.splits)

lemma mediaDevices_onstop:
  "mediaDevices (onstop mr env s) = stopTracks (stream mr) (mediaDevices s)"
  by (cases rule: onstop_cases [of mr env s])
     (simp_all add: clearTimerRef_def clearInterval_def setRecordingState_def split: option.splits)




text \<open>
  A click on Start followed at once by the settling of its \<^verbatim>\<open>getUserMedia\<close> is
  the whole call \<open>startRecording\<close>.
\<close>

lemma click_then_settle:
  assumes "clickable StartButton s"
  shows "dispatch (GetUserMediaSettles (length (pendingStarts s)) env)
           (dispatch (ClickStart answer) s) = startRecording env s"
  using assms by (simp add: startRecording_begin_def startRecording_def)



section \<open>Recording session: the example session\<close>

lemmas example_defs = example_recording_def example_double_start_def example_start_def
  example_mic_def example_stop_def example_chunk_def

lemmas handler_defs = run_def initialState_def initializeStorage_def loadRecordings_def init_def
  getRecordings_def index_getAll_def array_sort_def
  requestMicrophonePermission_def getUserMedia_def stopTracks_def track_stop_def
  startRecording_def startRecording_begin_def startRecording_resume_def
  setInterval_def setRecordingState_def

lemma example_recording_eval:
  "example_recording =
     \<lparr>recordingState =
        \<lparr>isRecording = True, isPaused = False, recordingTime = 0,
         mediaRecorder = Some 0, audioStream = Some 1\<rparr>,
      error = '''', permissionGranted = True, selectedDeviceId = '''',
      timerRef = Some 1, chunksRef = [],
      mediaDevices =
        \<lparr>streams = [0 \<mapsto> [\<lparr>kind = audio, readyState = ended\<rparr>],
                    1 \<mapsto> [\<lparr>kind = audio, readyState = live\<rparr>]],
         nextStream = 2\<rparr>,
      recorders =
        [0 \<mapsto> \<lparr>stream = 1, mimeTypeOf = ''audio/webm'', state = state_recording,
                 onstop_recordingState =
                   \<lparr>isRecording = False, isPaused = False, recordingTime = 0,
                    mediaRecorder = None, audioStream = None\<rparr>\<rparr>],
      nextRecorder = 1, intervals = {1}, nextInterval = 2,
      audioStorage = \<lparr>db = Some IDBDatabase, objectStore = []\<rparr>, recordings = [],
      pendingStarts = []\<rparr>"
  by (simp add: example_defs handler_defs)

lemma example_double_start_eval:
  "example_double_start =
     \<lparr>recordingState =
        \<lparr>isRecording = True, isPaused = False, recordingTime = 0,
         mediaRecorder = Some 1, audioStream = Some 2\<rparr>,
      error = '''', permissionGranted = True, selectedDeviceId = '''',
      timerRef = Some 2, chunksRef = [],
      mediaDevices =
        \<lparr>streams = [0 \<mapsto> [\<lparr>kind = audio, readyState = ended\<rparr>],
                    1 \<mapsto> [\<lparr>kind = audio, readyState = live\<rparr>],
                    2 \<mapsto> [\<lparr>kind = audio, readyState = live\<rparr>]],
         nextStream = 3\<rparr>,
      recorders =
        [0 \<mapsto> \<lparr>stream = 1, mimeTypeOf = ''audio/webm'', state = state_recording,
                 onstop_recordingState =
                   \<lparr>isRecording = False, isPaused = False, recordingTime = 0,
                    mediaRecorder = None, audioStream = None\<rparr>\<rparr>,
         1 \<mapsto> \<lparr>stream = 2, mimeTypeOf = ''audio/webm'', state = state_recording,
                 onstop_recordingState =
                   \<lparr>isRecording = False, isPaused = False, recordingTime = 0,
                    mediaRecorder = None, audioStream = None\<rparr>\<rparr>],
      nextRecorder = 2, intervals = {1, 2}, nextInterval = 3,
      audioStorage = \<lparr>db = Some IDBDatabase, objectStore = []\<rparr>, recordings = [],
      pendingStarts = []\<rparr>"
  by (simp add: example_defs handler_defs insert_commute eval_nat_numeral)

subsection \<open>What a stop does\<close>

lemma stopRecording_onstop:
  assumes "session_inv s" and "isRecording (recordingState s) \<or> isPaused (recordingState s)"
  obtains r mr where
    "mediaRecorder (recordingState s) = Some r"
    "recorders s r = Some mr"
    "audioStream (recordingState s) = Some (stream mr)"
    "streams (mediaDevices s) (stream mr) \<noteq> None"
    "stopRecording env s =
       onstop (mr\<lparr>state := state_inactive\<rparr>) env
         (ondataavailable (finalData env)
            (s\<lparr>recorders := (recorders s)(r \<mapsto> mr\<lparr>state := state_inactive\<rparr>)\<rparr>))"
proof -
  from assms have rec: "isRecording (recordingState s)"
    by (auto simp: session_inv_def Let_def)
  with assms(1) obtain r where r: "mediaRecorder (recordingState s) = Some r"
    by (auto simp: session_inv_def Let_def split: option.splits)
  with assms(1) rec obtain mr where mr: "recorders s r = Some mr"
    by (auto simp: session_inv_def Let_def split: option.splits)
  from assms(1) rec r mr have st: "state mr \<noteq> state_inactive"
    and a: "audioStream (recordingState s) = Some (stream mr)"
    and str: "streams (mediaDevices s) (stream mr) \<noteq> None"
    by (auto simp: session_inv_def Let_def split: if_splits)
  from rec r mr st have
    "stopRecording env s =
       onstop (mr\<lparr>state := state_inactive\<rparr>) env
         (ondataavailable (finalData env)
            (s\<lparr>recorders := (recorders s)(r \<mapsto> mr\<lparr>state := state_inactive\<rparr>)\<rparr>))"
    by (simp add: stopRecording_def recorder_stop_def)
  with r mr a str show ?thesis by (rule that)
qed

lemma mediaDevices_ondataavailable: "mediaDevices (ondataavailable d s) = mediaDevices s"
  by (simp add: ondataavailable_def)

lemmas stop_defs = stopRecording_def recorder_stop_def onstop_def ondataavailable_def
  assemble_def saveRecording_def clearTimerRef_def clearInterval_def setRecordingState_def
  stopTracks_def track_stop_def size_blob_def new_Blob_def store_put_def


subsection \<open>Chunk buffering\<close>








subsection \<open>Stopping\<close>

text \<open>
  What a stop does to the streams, in every state with the shape of a session that
  is recording or paused and whatever the environment answers: the stream the state
  holds keeps the tracks it held, each of them stopped, and every other stream is
  left as it was.
\<close>

lemma stop_ends_held_tracks:
  assumes "session_inv s"
    and "isRecording (recordingState s) \<or> isPaused (recordingState s)"
  shows "\<exists>str ts. audioStream (recordingState s) = Some str \<and>
           streams (mediaDevices s) str = Some ts \<and>
           streams (mediaDevices (stopRecording env s)) str = Some (map track_stop ts) \<and>
           (\<forall>k. k \<noteq> str \<longrightarrow>
              streams (mediaDevices (stopRecording env s)) k = streams (mediaDevices s) k)"
proof -
  from assms obtain r mr where
    a: "audioStream (recordingState s) = Some (stream mr)"
    and str: "streams (mediaDevices s) (stream mr) \<noteq> None"
    and stop: "stopRecording env s =
       onstop (mr\<lparr>state := state_inactive\<rparr>) env
         (ondataavailable (finalData env)
            (s\<lparr>recorders := (recorders s)(r \<mapsto> mr\<lparr>state := state_inactive\<rparr>)\<rparr>))"
    by (rule stopRecording_onstop [where env = env])
  from str obtain ts where ts: "streams (mediaDevices s) (stream mr) = Some ts"
    by auto
  have md: "mediaDevices (stopRecording env s) = stopTracks (stream mr) (mediaDevices s)"
    by (simp add: stop mediaDevices_onstop mediaDevices_ondataavailable)
  have "streams (mediaDevices (stopRecording env s)) (stream mr) = Some (map track_stop ts)"
    by (simp add: md streams_stopTracks ts)
  moreover have "\<forall>k. k \<noteq> stream mr \<longrightarrow>
      streams (mediaDevices (stopRecording env s)) k = streams (mediaDevices s) k"
    by (simp add: md streams_stopTracks)
  ultimately show ?thesis
    using a ts by blast
qed


subsection \<open>Pausing and resuming\<close>

lemma recordingTime_pauseRecording:
  "recordingTime (recordingState (pauseRecording s)) = recordingTime (recordingState s)"
  by (auto simp: pauseRecording_def recorder_pause_def clearTimerRef_def clearInterval_def
      setRecordingState_def split: option.splits)

lemma recordingTime_resumeRecording:
  "recordingTime (recordingState (resumeRecording s)) = recordingTime (recordingState s)"
  by (auto simp: resumeRecording_def recorder_resume_def Let_def setInterval_def
      setRecordingState_def split: option.splits)

text \<open>
  Pausing and then resuming, with nothing in between, leaves the elapsed seconds as
  they were, in whatever state.
\<close>

lemma pause_then_resume_keeps_elapsed:
  "recordingTime (recordingState (resumeRecording (pauseRecording s)))
     = recordingTime (recordingState s)"
  by (simp add: recordingTime_resumeRecording recordingTime_pauseRecording)

text \<open>
  \<^verbatim>\<open>pauseRecording\<close> clears the timer of \<^verbatim>\<open>timerRef\<close> and no other: every
  other timer that was active still is.
\<close>

lemma intervals_pauseRecording:
  "intervals (pauseRecording s) \<subseteq> intervals s \<and>
   (\<forall>t\<in>intervals s. timerRef s \<noteq> Some t \<longrightarrow> t \<in> intervals (pauseRecording s))"
  by (auto simp: pauseRecording_def recorder_pause_def clearTimerRef_def clearInterval_def
      setRecordingState_def split: option.splits)

text \<open>
  C7 at a concrete session. Start is clicked twice, the second time while the first
  call of \<^verbatim>\<open>startRecording\<close> still waits for its stream; both calls resume, each
  setting a timer (1 and 2), and \<^verbatim>\<open>timerRef\<close> keeps the second. Pause is clicked
  at elapsed time 0: the session is paused, timer 2 is cleared, timer 1 is still
  active. It fires three times: the session is still paused and the elapsed time
  is 3.
\<close>

theorem orphan_timer_counts_while_paused:
  "isRecording (recordingState example_double_start) \<and>
   isPaused (recordingState example_double_start) = False \<and>
   intervals example_double_start = {1, 2} \<and>
   isPaused (recordingState (run [ClickPause] example_double_start)) \<and>
   recordingTime (recordingState (run [ClickPause] example_double_start)) = 0 \<and>
   timerRef (run [ClickPause] example_double_start) = Some 2 \<and>
   intervals (run [ClickPause] example_double_start) = {1} \<and>
   isPaused (recordingState
     (run [ClickPause, TimerFires 1, TimerFires 1, TimerFires 1] example_double_start)) \<and>
   recordingTime (recordingState
     (run [ClickPause, TimerFires 1, TimerFires 1, TimerFires 1] example_double_start)) = 3"
  by (auto simp: run_def example_double_start_eval pauseRecording_def recorder_pause_def
      clearTimerRef_def clearInterval_def setRecordingState_def tick_def)

subsection \<open>Starting\<close>

lemma startRecording_success:
  assumes "permissionGranted s" and "streamAnswer env = Inr ts" and "startError env = None"
  shows "recordingState (startRecording env s) =
           (recordingState s)\<lparr>isRecording := True, isPaused := False,
              mediaRecorder := Some (nextRecorder s),
              audioStream := Some (nextStream (mediaDevices s))\<rparr>"
    and "chunksRef (startRecording env s) = []"
    and "timerRef (startRecording env s) = Some (nextInterval s)"
    and "intervals (startRecording env s) = insert (nextInterval s) (intervals s)"
    and "error (startRecording env s) = ''''"
  using assms
  by (simp_all add: startRecording_def startRecording_resume_def getUserMedia_def Let_def
      setInterval_def setRecordingState_def)

text \<open>
  No part of \<^verbatim>\<open>startRecording\<close> assigns the elapsed time, and none clears a
  timer: whatever the environment answers, the elapsed time after it is the one
  before it, and every timer that was active still is.
\<close>

lemma startRecording_resume_keeps_time:
  "recordingTime (recordingState (startRecording_resume env rendered s))
     = recordingTime (recordingState s) \<and>
   intervals s \<subseteq> intervals (startRecording_resume env rendered s)"
  by (cases "streamAnswer env"; cases "startError env")
     (auto simp: startRecording_resume_def getUserMedia_def Let_def setInterval_def
        setRecordingState_def)

text \<open>
  C8 at a concrete session. Start is clicked twice, the second time while the first
  call of \<^verbatim>\<open>startRecording\<close> still waits for its stream; both calls resume, each
  setting a timer (1 and 2). Stop is clicked: the elapsed time is set to 0 and timer
  2, the one of \<^verbatim>\<open>timerRef\<close>, is cleared. Timer 1 is still active and fires five
  times while the session is idle. Start can be clicked, is clicked, and the call
  gets its stream and starts its recorder: the chunk buffer is empty and a new timer
  3 is set, but the session records with an elapsed time of 5 and with the two
  timers 1 and 3, each of which adds to the elapsed time when it fires.
\<close>

theorem start_keeps_stale_elapsed_time:
  "clickable StartButton
     (run [ClickStop (example_stop 1000 None),
           TimerFires 1, TimerFires 1, TimerFires 1, TimerFires 1, TimerFires 1]
        example_double_start) \<and>
   recordingTime (recordingState
     (run [ClickStop (example_stop 1000 None),
           TimerFires 1, TimerFires 1, TimerFires 1, TimerFires 1, TimerFires 1]
        example_double_start)) = 5 \<and>
   isRecording (recordingState
     (run [ClickStop (example_stop 1000 None),
           TimerFires 1, TimerFires 1, TimerFires 1, TimerFires 1, TimerFires 1,
           ClickStart (Inr example_mic), GetUserMediaSettles 0 example_start]
        example_double_start)) \<and>
   chunksRef
     (run [ClickStop (example_stop 1000 None),
           TimerFires 1, TimerFires 1, TimerFires 1, TimerFires 1, TimerFires 1,
           ClickStart (Inr example_mic), GetUserMediaSettles 0 example_start]
        example_double_start) = [] \<and>
   recordingTime (recordingState
     (run [ClickStop (example_stop 1000 None),
           TimerFires 1, TimerFires 1, TimerFires 1, TimerFires 1, TimerFires 1,
           ClickStart (Inr example_mic), GetUserMediaSettles 0 example_start]
        example_double_start)) = 5 \<and>
   timerRef
     (run [ClickStop (example_stop 1000 None),
           TimerFires 1, TimerFires 1, TimerFires 1, TimerFires 1, TimerFires 1,
           ClickStart (Inr example_mic), GetUserMediaSettles 0 example_start]
        example_double_start) = Some 3 \<and>
   intervals
     (run [ClickStop (example_stop 1000 None),
           TimerFires 1, TimerFires 1, TimerFires 1, TimerFires 1, TimerFires 1,
           ClickStart (Inr example_mic), GetUserMediaSettles 0 example_start]
        example_double_start) = {1, 3} \<and>
   recordingTime (recordingState
     (run [ClickStop (example_stop 1000 None),
           TimerFires 1, TimerFires 1, TimerFires 1, TimerFires 1, TimerFires 1,
           ClickStart (Inr example_mic), GetUserMediaSettles 0 example_start,
           TimerFires 1, TimerFires 3]
        example_double_start)) = 7"
  by (auto simp: run_def example_double_start_eval example_stop_def example_chunk_def
      example_start_def example_mic_def stop_defs Let_def tick_def
      startRecording_begin_def startRecording_resume_def getUserMedia_def setInterval_def
      insert_commute)

subsection \<open>Starting while a session is active\<close>

text \<open>
  C1, as stated, fails: \<^verbatim>\<open>startRecording\<close> has no test of the phase. Called on
  the example session, which is recording with one buffered chunk and timer 1, it
  reports nothing, empties the buffer, leaves timer 1 running and starts timer 2.
\<close>

theorem start_while_recording_counterexample:
  "isRecording (recordingState (run [DataAvailable (example_chunk 10)] example_recording)) \<and>
   chunksRef (run [DataAvailable (example_chunk 10)] example_recording) = [example_chunk 10] \<and>
   timerRef (run [DataAvailable (example_chunk 10)] example_recording) = Some 1 \<and>
   intervals (run [DataAvailable (example_chunk 10)] example_recording) = {1} \<and>
   chunksRef (startRecording example_start
     (run [DataAvailable (example_chunk 10)] example_recording)) = [] \<and>
   timerRef (startRecording example_start
     (run [DataAvailable (example_chunk 10)] example_recording)) = Some 2 \<and>
   intervals (startRecording example_start
     (run [DataAvailable (example_chunk 10)] example_recording)) = {1, 2} \<and>
   error (startRecording example_start
     (run [DataAvailable (example_chunk 10)] example_recording)) = ''''"
proof -
  have s: "run [DataAvailable (example_chunk 10)] example_recording =
      example_recording\<lparr>chunksRef := [example_chunk 10]\<rparr>"
    by (simp add: run_def recorder_active_def ondataavailable_def size_blob_def
        example_chunk_def example_recording_eval)
  have p: "permissionGranted (example_recording\<lparr>chunksRef := [example_chunk 10]\<rparr>)"
    by (simp add: example_recording_eval)
  have a: "streamAnswer example_start = Inr example_mic"
    and b: "startError example_start = None"
    by (simp_all add: example_start_def)
  note st = startRecording_success [OF p a b]
  show ?thesis
    unfolding s by (simp add: st) (simp add: example_recording_eval insert_commute)
qed

text \<open>
  C1, amended. While the session is recording or paused the Start button is not
  rendered, so a start request from the interface reaches no handler: the whole
  state, and with it the chunk buffer, the timer, the elapsed seconds, the phase and
  the error shown, is unchanged, and nothing is reported.
\<close>

theorem start_not_offered_while_active:
  assumes "isRecording (recordingState s) \<or> isPaused (recordingState s)"
  shows "\<not> clickable StartButton s \<and> dispatch (ClickStart env) s = s"
  using assms by auto

theorem start_not_offered_while_active_witness:
  "(isRecording (recordingState example_recording) \<or>
    isPaused (recordingState example_recording)) \<and>
   dispatch (ClickStart (Inr example_mic)) example_recording = example_recording"
proof -
  have h: "isRecording (recordingState example_recording) \<or>
      isPaused (recordingState example_recording)"
    by (simp add: example_recording_eval)
  from start_not_offered_while_active [OF h] show ?thesis
    using h by blast
qed

subsection \<open>The stored duration\<close>

text \<open>
  C4 at a concrete session: mounted with permission granted and the storage opened,
  Start is clicked, the timer fires three times, so that the elapsed time is 3, and
  Stop is clicked with a successful \<^verbatim>\<open>put\<close>. The record stored, and handed to the
  page, has duration 0: \<^verbatim>\<open>onstop\<close> reads the \<^verbatim>\<open>recordingState\<close> of the render in
  which Start was clicked.
\<close>

theorem stored_duration_is_stale:
  "recordingTime (recordingState
     (run [TimerFires 1, TimerFires 1, TimerFires 1] example_recording)) = 3 \<and>
   map duration (recordings
     (run [TimerFires 1, TimerFires 1, TimerFires 1, ClickStop (example_stop 1000 None)]
        example_recording)) = [0] \<and>
   map duration (objectStore (audioStorage
     (run [TimerFires 1, TimerFires 1, TimerFires 1, ClickStop (example_stop 1000 None)]
        example_recording))) = [0]"
  by (simp add: run_def example_recording_eval tick_def setRecordingState_def
      example_stop_def example_chunk_def stop_defs Let_def)

subsection \<open>Identifiers\<close>

text \<open>
  C6, as stated, fails: two finalisations that read the same \<^verbatim>\<open>Date.now()\<close> give
  the same identifier. The example session is stopped at clock reading 1000,
  started again (Start clicked, the stream got) and stopped at the same reading:
  both records handed to the page
  are called \<^verbatim>\<open>recording_1000\<close>, and the store holds one record, the second
  \<^verbatim>\<open>put\<close> having replaced the first.
\<close>

theorem same_clock_same_id_counterexample:
  "map id_r (recordings
     (run [ClickStop (example_stop 1000 None),
           ClickStart (Inr example_mic), GetUserMediaSettles 0 example_start,
           ClickStop (example_stop 1000 None)] example_recording))
     = [''recording_1000'', ''recording_1000''] \<and>
   length (objectStore (audioStorage
     (run [ClickStop (example_stop 1000 None),
           ClickStart (Inr example_mic), GetUserMediaSettles 0 example_start,
           ClickStop (example_stop 1000 None)] example_recording))) = 1"
  by (simp add: run_def example_recording_eval example_start_def example_mic_def
      example_stop_def example_chunk_def stop_defs Let_def
      startRecording_begin_def startRecording_resume_def getUserMedia_def setInterval_def
      toString_def toString_nat.simps digit_char_def)

text \<open>
  C6, amended. The identifier of a finalised recording is \<^verbatim>\<open>recording_\<close> followed
  by the decimal \<^verbatim>\<open>Date.now()\<close> of its finalisation, so the identifiers of two
  recordings are equal exactly when the two finalisations read the same
  millisecond. Within the store identifiers are unique: a \<^verbatim>\<open>saveRecording\<close>,
  whatever its outcome, keeps the keys of the store distinct.
\<close>

theorem ids_distinct_iff_clock_differs:
  "(id_r (assemble mr env s) = id_r (assemble mr' env' s') \<longleftrightarrow> dateNow env = dateNow env') \<and>
   (distinct (map id_r (objectStore w)) \<longrightarrow>
      distinct (map id_r (objectStore (snd (saveRecording r req w)))))"
proof -
  have "distinct (map id_r (objectStore w)) \<longrightarrow>
      distinct (map id_r (objectStore (snd (saveRecording r req w))))"
    by (cases req) (simp_all add: saveRecording_def distinct_store_put)
  then show ?thesis
    by (simp add: assemble_def toString_inj)
qed

theorem ids_distinct_iff_clock_differs_witness:
  "id_r (assemble
      \<lparr>stream = 1, mimeTypeOf = ''audio/webm'', state = state_inactive,
       onstop_recordingState = recordingState example_recording\<rparr>
      (example_stop 1000 None) example_recording)
   \<noteq> id_r (assemble
      \<lparr>stream = 1, mimeTypeOf = ''audio/webm'', state = state_inactive,
       onstop_recordingState = recordingState example_recording\<rparr>
      (example_stop 1001 None) example_recording) \<and>
   distinct (map id_r (objectStore \<lparr>db = Some IDBDatabase, objectStore = []\<rparr>)) \<and>
   distinct (map id_r (objectStore (snd (saveRecording
      (assemble
        \<lparr>stream = 1, mimeTypeOf = ''audio/webm'', state = state_inactive,
         onstop_recordingState = recordingState example_recording\<rparr>
        (example_stop 1000 None) example_recording)
      None \<lparr>db = Some IDBDatabase, objectStore = []\<rparr>))))"
proof -
  have d: "dateNow (example_stop 1000 None) \<noteq> dateNow (example_stop 1001 None)"
    by (simp add: example_stop_def)
  have h: "distinct (map id_r (objectStore \<lparr>db = Some IDBDatabase, objectStore = []\<rparr>))"
    by simp
  from ids_distinct_iff_clock_differs
    [of "\<lparr>stream = 1, mimeTypeOf = ''audio/webm'', state = state_inactive,
         onstop_recordingState = recordingState example_recording\<rparr>"
        "example_stop 1000 None" example_recording
        "\<lparr>stream = 1, mimeTypeOf = ''audio/webm'', state = state_inactive,
         onstop_recordingState = recordingState example_recording\<rparr>"
        "example_stop 1001 None" example_recording
        "\<lparr>db = Some IDBDatabase, objectStore = []\<rparr>"]
  show ?thesis
    using d h by blast
qed

end
